theory Spec2Isabelle
  imports Main "HOL-Library.Product_Lexorder"
begin

section \<open>Records and studies (package models)\<close>

text \<open>
  The field \<open>StudyID\<close> of a REDCap record has Go type \<open>interface{}\<close>: JSON decoding
  stores a string for a JSON string, a \<open>float64\<close> for a JSON number and \<open>nil\<close> for
  \<open>null\<close>; the tests also store an \<open>int\<close>.  The code observes the value in three ways
  only: the comparison \<open>r.StudyID != ""\<close>, \<open>fmt.Sprint\<close> and the verb \<open>%s\<close>.
  A non-string scalar is therefore represented by the name of its Go type and its
  \<open>%v\<close> rendering (for instance \<open>SidOther ''float64'' ''1''\<close>).
\<close>

datatype study_id = SidNil | SidString string | SidOther string string

text \<open>\<open>fmt.Sprint(v)\<close> for one operand: the \<open>%v\<close> rendering.\<close>

fun fmtSprint :: "study_id \<Rightarrow> string" where
  "fmtSprint SidNil = ''<nil>''"
| "fmtSprint (SidString s) = s"
| "fmtSprint (SidOther ty v) = v"

text \<open>
  The verb \<open>%s\<close> applied to an interface value: a string is printed as it is, any other
  scalar as the bad-verb form \<open>%!s(type=value)\<close>, and nil as \<open>%!s(<nil>)\<close>.
\<close>

fun fmtVerbS :: "study_id \<Rightarrow> string" where
  "fmtVerbS SidNil = ''%!s(<nil>)''"
| "fmtVerbS (SidString s) = s"
| "fmtVerbS (SidOther ty v) = ''%!s('' @ ty @ ''='' @ v @ '')''"

record Record =
  StudyID :: study_id
  EventName :: string
  RiskFactorDate :: string
  ClinicalRisk :: string
  FunctionalRisk :: string
  PsychosocialRisk :: string
  UtilizationRisk :: string
  PerceivedRisk :: string

definition StudyIDString :: "Record \<Rightarrow> string" where
  "StudyIDString r = fmtSprint (StudyID r)"

text \<open>
  Go errors.  \<open>ErrorString\<close> is the error of \<open>errors.New\<close> and \<open>fmt.Errorf\<close>, with its
  message; \<open>ParseError v\<close> is the \<open>*time.ParseError\<close> for the value \<open>v\<close>.
\<close>

datatype error = ErrorString string | ParseError string

record Study =
  ID :: string
  Records :: "Record list"

text \<open>
  \<open>Study.AddRecord\<close> mutates the receiver and returns an error.  The model returns the
  receiver after the call together with the error (\<open>None\<close> is Go's \<open>nil\<close>).
  The comparison \<open>r.StudyID != ""\<close> of an
  interface value with a string constant is false only for a value of dynamic type
  string that is the empty string.
\<close>

definition AddRecord :: "Study \<Rightarrow> Record \<Rightarrow> Study \<times> error option" where
  "AddRecord s r =
     (if StudyID r \<noteq> SidString '''' then
        (if ID s = '''' then
           (s\<lparr>ID := StudyIDString r, Records := Records s @ [r]\<rparr>, None)
         else if ID s \<noteq> StudyIDString r then
           (s, Some (ErrorString (''Record with study ID '' @ fmtVerbS (StudyID r) @
                     '' cannot be added to study with ID '' @ ID s)))
         else (s\<lparr>Records := Records s @ [r]\<rparr>, None))
      else (s\<lparr>Records := Records s @ [r]\<rparr>, None))"

section \<open>Standard-library functions used by the conversion\<close>

text \<open>
  \<open>strconv.Atoi\<close>: an optional sign, then one or more decimal digits and nothing else;
  a value outside the range of a 64-bit \<open>int\<close> is an error as well.  \<open>None\<close> stands for
  a non-nil error (its text is never read: \<open>newSlice\<close> replaces it).
\<close>

definition isDigit :: "char \<Rightarrow> bool" where
  "isDigit c = (48 \<le> (of_char c :: nat) \<and> (of_char c :: nat) \<le> 57)"

definition digitVal :: "char \<Rightarrow> nat" where
  "digitVal c = of_char c - 48"

definition decimal :: "string \<Rightarrow> nat" where
  "decimal ds = foldl (\<lambda>a c. 10 * a + digitVal c) 0 ds"

definition Atoi :: "string \<Rightarrow> int option" where
  "Atoi s =
     (let neg = (case s of [] \<Rightarrow> False | c # cs \<Rightarrow> c = CHR ''-'');
          ds = (case s of [] \<Rightarrow> []
                | c # cs \<Rightarrow> if c = CHR ''-'' \<or> c = CHR ''+'' then cs else s)
      in if ds = [] then None
         else if list_all isDigit ds then
           (let v = (if neg then - int (decimal ds) else int (decimal ds))
            in if v < - (2 ^ 63) then None
               else if 2 ^ 63 - 1 < v then None
               else Some v)
         else None)"

text \<open>
  A parsed risk-factor date: year, month and day of a calendar date, standing for the
  \<open>time.Time\<close> at midnight of that date in the local time zone.  The order of these
  instants is the lexicographic order of the triples.
\<close>

type_synonym date = "nat \<times> nat \<times> nat"

definition isLeap :: "nat \<Rightarrow> bool" where
  "isLeap y = (if y mod 4 = 0 then (if y mod 100 = 0 then y mod 400 = 0 else True) else False)"

definition daysIn :: "nat \<Rightarrow> nat \<Rightarrow> nat" where
  "daysIn m y =
     (if m = 2 then (if isLeap y then 29 else 28)
      else if m = 4 \<or> m = 6 \<or> m = 9 \<or> m = 11 then 30 else 31)"

text \<open>
  \<open>time.ParseInLocation("2006-01-02", value, time.Local)\<close>: four digits, a dash, two
  digits, a dash, two digits and no further text; the month is in 1..12 and the day
  exists in that month.  \<open>None\<close> stands for a \<open>*time.ParseError\<close>.
\<close>

definition ParseInLocation :: "string \<Rightarrow> date option" where
  "ParseInLocation v =
     (if length v = 10 \<and> list_all isDigit (take 4 v) \<and> v ! 4 = CHR ''-'' \<and>
         list_all isDigit (take 2 (drop 5 v)) \<and> v ! 7 = CHR ''-'' \<and>
         list_all isDigit (drop 8 v)
      then
        (let y = decimal (take 4 v); m = decimal (take 2 (drop 5 v)); d = decimal (drop 8 v)
         in if m < 1 then None else if 12 < m then None
            else if d < 1 then None else if daysIn m y < d then None
            else Some (y, m, d))
      else None)"

section \<open>The conversion engine (package models and the riskservice plugin types)\<close>

record Slice =
  Name :: string
  Value :: int
  Weight :: int
  MaxValue :: int

record Pie =
  Id :: string
  Created :: nat
  Patient :: string
  Slices :: "Slice list"

text \<open>
  \<open>plugin.RiskServiceCalculationResult\<close>.  \<open>Score\<close> is a pointer: the conversion stores
  the address of the \<open>Value\<close> field of one of the pie's slices in it, so the model keeps
  the index of that slice (\<open>None\<close> is the nil pointer).  \<open>ProbabilityDecimal\<close> is never
  assigned and is left out.
\<close>

record RiskServiceCalculationResult =
  AsOf :: date
  Score :: "nat option"
  Pie :: Pie

text \<open>The value \<open>*result.Score\<close> that the pointer refers to.\<close>

definition ScoreValue :: "RiskServiceCalculationResult \<Rightarrow> int option" where
  "ScoreValue result =
     (case Score result of None \<Rightarrow> None | Some i \<Rightarrow> Some (Value (Slices (Pie result) ! i)))"

text \<open>
  What the code asks of its surroundings: fresh object ids and the clock (used by
  \<open>ToPie\<close>), and further below the HTTP client and the risk-service library.  Each
  effect takes the state of the world and returns the state after it.
\<close>

record 'w pie_env =
  NewObjectId :: "'w \<Rightarrow> string \<times> 'w"
  Now :: "'w \<Rightarrow> nat \<times> 'w"

definition RiskFactorDateTime :: "Record \<Rightarrow> error + date" where
  "RiskFactorDateTime r =
     (case ParseInLocation (RiskFactorDate r) of
        None \<Rightarrow> Inl (ParseError (RiskFactorDate r))
      | Some t \<Rightarrow> Inr t)"

definition IsRiskFactorsComplete :: "Record \<Rightarrow> bool" where
  "IsRiskFactorsComplete r =
     (RiskFactorDate r \<noteq> '''' \<and> ClinicalRisk r \<noteq> '''' \<and> FunctionalRisk r \<noteq> '''' \<and>
      PsychosocialRisk r \<noteq> '''' \<and> UtilizationRisk r \<noteq> '''' \<and> PerceivedRisk r \<noteq> '''')"

definition newSlice :: "string \<Rightarrow> string \<Rightarrow> error + Slice" where
  "newSlice name score =
     (case Atoi score of
        None \<Rightarrow> Inl (ErrorString (''Invalid '' @ name @ '': '' @ score))
      | Some v \<Rightarrow> Inr \<lparr>Name = name, Value = v, Weight = 25, MaxValue = 4\<rparr>)"

definition ToPie ::
  "('w, 'x) pie_env_scheme \<Rightarrow> Record \<Rightarrow> string \<Rightarrow> 'w \<Rightarrow> (error + Pie) \<times> 'w" where
  "ToPie env r patientURL w =
     (if \<not> IsRiskFactorsComplete r then
        (Inl (ErrorString ''Cannot create a pie with incomplete risk factors''), w)
      else
        (case NewObjectId env w of (oid, w1) \<Rightarrow>
         case Now env w1 of (now, w2) \<Rightarrow>
         case newSlice ''Clinical Risk'' (ClinicalRisk r) of
           Inl err \<Rightarrow> (Inl err, w2)
         | Inr crSlice \<Rightarrow>
         case newSlice ''Functional and Environmental Risk'' (FunctionalRisk r) of
           Inl err \<Rightarrow> (Inl err, w2)
         | Inr frSlice \<Rightarrow>
         case newSlice ''Psychosocial and Mental Health Risk'' (PsychosocialRisk r) of
           Inl err \<Rightarrow> (Inl err, w2)
         | Inr prSlice \<Rightarrow>
         case newSlice ''Utilization Risk'' (UtilizationRisk r) of
           Inl err \<Rightarrow> (Inl err, w2)
         | Inr urSlice \<Rightarrow>
           (Inr \<lparr>Id = oid, Created = now, Patient = patientURL,
                 Slices = [crSlice, frSlice, prSlice, urSlice]\<rparr>, w2)))"

text \<open>
  The loop \<open>for i := range pie.Slices\<close> that sets \<open>result.Score\<close>: the pointer moves to
  slice \<open>i\<close> when it is nil or when the value it refers to is smaller than that of
  slice \<open>i\<close>.
\<close>

definition scoreStep :: "Slice list \<Rightarrow> nat option \<Rightarrow> nat \<Rightarrow> nat option" where
  "scoreStep slices score i =
     (case score of
        None \<Rightarrow> Some i
      | Some j \<Rightarrow> if Value (slices ! j) < Value (slices ! i) then Some i else Some j)"

definition scoreLoop :: "Slice list \<Rightarrow> nat option" where
  "scoreLoop slices = foldl (scoreStep slices) None [0..<length slices]"

definition ToRiskServiceCalculationResult ::
  "('w, 'x) pie_env_scheme \<Rightarrow> Record \<Rightarrow> string \<Rightarrow> 'w
    \<Rightarrow> (error + RiskServiceCalculationResult) \<times> 'w" where
  "ToRiskServiceCalculationResult env r patientURL w =
     (case ToPie env r patientURL w of
        (Inl err, w') \<Rightarrow> (Inl err, w')
      | (Inr pie, w') \<Rightarrow>
          (case RiskFactorDateTime r of
             Inl err \<Rightarrow> (Inl err, w')
           | Inr t \<Rightarrow> (Inr \<lparr>AsOf = t, Score = scoreLoop (Slices pie), Pie = pie\<rparr>, w')))"

text \<open>
  Modelled from the spec: \<open>plugin.SortResultsByAsOfDate\<close> belongs to the riskservice
  library, whose source is not part of this repository.  The spec asks for the results
  in ascending order of \<open>asOf\<close>, results of equal \<open>asOf\<close> keeping their input order.
\<close>

definition SortResultsByAsOfDate ::
  "RiskServiceCalculationResult list \<Rightarrow> RiskServiceCalculationResult list" where
  "SortResultsByAsOfDate results = sort_key AsOf results"

text \<open>
  The loop of \<open>Study.ToRiskServiceCalculationResults\<close> over the records: a record whose
  conversion returns an error is skipped.
\<close>

fun convertRecords ::
  "('w, 'x) pie_env_scheme \<Rightarrow> string \<Rightarrow> Record list \<Rightarrow> RiskServiceCalculationResult list
    \<Rightarrow> 'w \<Rightarrow> RiskServiceCalculationResult list \<times> 'w" where
  "convertRecords env patientURL [] results w = (results, w)"
| "convertRecords env patientURL (r # rs) results w =
     (case ToRiskServiceCalculationResult env r patientURL w of
        (Inl err, w') \<Rightarrow> convertRecords env patientURL rs results w'
      | (Inr result, w') \<Rightarrow> convertRecords env patientURL rs (results @ [result]) w')"

definition ToRiskServiceCalculationResults ::
  "('w, 'x) pie_env_scheme \<Rightarrow> Study \<Rightarrow> string \<Rightarrow> 'w
    \<Rightarrow> RiskServiceCalculationResult list \<times> 'w" where
  "ToRiskServiceCalculationResults env s patientURL w =
     (case convertRecords env patientURL (Records s) [] w of
        (results, w') \<Rightarrow> (SortResultsByAsOfDate results, w'))"

text \<open>
  A record that the conversion keeps: it is complete, its four category scores are
  integers and its date parses.
\<close>

definition convertible :: "Record \<Rightarrow> bool" where
  "convertible r =
     (IsRiskFactorsComplete r \<and> Atoi (ClinicalRisk r) \<noteq> None \<and>
      Atoi (FunctionalRisk r) \<noteq> None \<and> Atoi (PsychosocialRisk r) \<noteq> None \<and>
      Atoi (UtilizationRisk r) \<noteq> None \<and> ParseInLocation (RiskFactorDate r) \<noteq> None)"

text \<open>
  The spec's words for the score: the maximum of the slice values, a tie going to the
  first maximal slice.
\<close>

definition firstMaximalSlice :: "int list \<Rightarrow> nat" where
  "firstMaximalSlice vs = length (takeWhile (\<lambda>v. v \<noteq> Max (set vs)) vs)"

text \<open>
  A concrete world for examples: the state counts the object ids handed out, and the
  clock shows that count.
\<close>

definition counter_env :: "nat pie_env" where
  "counter_env = \<lparr>NewObjectId = (\<lambda>w. (''oid'' @ replicate w CHR ''+'', Suc w)),
                   Now = (\<lambda>w. (w, w))\<rparr>"


section \<open>Posting the risk assessments (package client)\<close>

text \<open>The verb \<open>%d\<close> for an \<open>int\<close>: its decimal digits, with a minus sign when negative.\<close>

definition digitChar :: "nat \<Rightarrow> char" where
  "digitChar d = ''0123456789'' ! d"

fun digitsOf :: "nat \<Rightarrow> string" where
  "digitsOf n = (if n < 10 then [digitChar n] else digitsOf (n div 10) @ [digitChar (n mod 10)])"

declare digitsOf.simps [simp del]

definition fmtVerbD :: "int \<Rightarrow> string" where
  "fmtVerbD i = (if i < 0 then CHR ''-'' # digitsOf (nat (- i)) else digitsOf (nat i))"

text \<open>
  The FHIR library's bundle, as far as the code reads it.  The \<open>Resource\<close> of a bundle
  entry has an interface type: it holds a \<open>*fhir.Patient\<close> (of which only the \<open>Id\<close> is
  read), a resource of another type (given by the name of that type), or nil.  A link
  is its \<open>Relation\<close> and its \<open>Url\<close>.
\<close>

datatype resource = PatientResource string | OtherResource string | NilResource

record Bundle =
  Entry :: "resource list"
  Link :: "(string \<times> string) list"

text \<open>
  What \<open>http.DefaultClient.Do\<close> returns: an error (its text), or a response with its
  \<open>StatusCode\<close>, its \<open>Status\<close> and its body; the body is given by what the JSON decoder
  makes of it, an error (its text) or a bundle.
\<close>

datatype body = DecodeError string | Decoded Bundle

datatype http_result = DoError string | Response int string body

text \<open>
  The surroundings of \<open>PostRiskAssessments\<close>: besides object ids and the clock,
  \<open>http.NewRequest("GET", url, nil)\<close> (the text of its error, if the URL makes it
  fail), \<open>http.DefaultClient.Do\<close> for a GET of a URL, and the risk-service library's
  \<open>UpdateRiskAssessmentsAndPies\<close> with the FHIR endpoint, the patient id, the results
  and the pie URL (the pie collection is part of the world, the configuration is the
  constant \<open>REDCapRiskServiceConfig\<close>).
\<close>

record 'w sys = "'w pie_env" +
  NewRequest :: "string \<Rightarrow> string option"
  Do :: "string \<Rightarrow> 'w \<Rightarrow> http_result \<times> 'w"
  UpdateRiskAssessmentsAndPies ::
    "string \<Rightarrow> string \<Rightarrow> RiskServiceCalculationResult list \<Rightarrow> string \<Rightarrow> 'w
      \<Rightarrow> error option \<times> 'w"

text \<open>
  \<open>client.Result\<close>.  Its field \<open>StudyID\<close> is written \<open>Result_StudyID\<close>, since the record
  type \<open>Record\<close> has a field of that name.
\<close>

record Result =
  Result_StudyID :: string
  FHIRPatientID :: string
  RiskAssessmentCount :: int
  Error :: "error option"

text \<open>
  A run-time panic.  The only one in reach is the failed type assertion
  \<open>patients.Entry[0].Resource.(*fhir.Patient)\<close>.
\<close>

datatype panic = InterfaceConversion resource

definition StatusOK :: int where
  "StatusOK = 200"

text \<open>
  The body of the loop of \<open>PostRiskAssessments\<close> for one study: \<open>Inr\<close> is the result
  that the iteration appends to \<open>results\<close>, \<open>Inl\<close> a panic.
\<close>

definition postStudy ::
  "'w sys \<Rightarrow> string \<Rightarrow> Study \<Rightarrow> string \<Rightarrow> 'w \<Rightarrow> (panic + Result) \<times> 'w" where
  "postStudy sys fhirEndpoint study basisPieURL w =
     (let result = \<lparr>Result_StudyID = ID study, FHIRPatientID = '''',
                     RiskAssessmentCount = 0, Error = None\<rparr>
      in
      case NewRequest sys (fhirEndpoint @ ''/Patient?identifier='' @ ID study) of
        Some err \<Rightarrow>
          (Inr (result\<lparr>Error := Some (ErrorString
             (''Couldn't create HTTP request for querying patient with Study ID: '' @
              ID study @ ''.  Error: '' @ err))\<rparr>), w)
      | None \<Rightarrow>
      (case Do sys (fhirEndpoint @ ''/Patient?identifier='' @ ID study) w of
        (DoError err, w1) \<Rightarrow>
          (Inr (result\<lparr>Error := Some (ErrorString
             (''Couldn't query FHIR server for patient with Study ID: '' @
              ID study @ ''.  Error: '' @ err))\<rparr>), w1)
      | (Response statusCode status resBody, w1) \<Rightarrow>
          if statusCode \<noteq> StatusOK then
            (Inr (result\<lparr>Error := Some (ErrorString
               (''Received HTTP '' @ fmtVerbD statusCode @ '' '' @ status @
                '' from FHIR server when querying patient with Study ID: '' @
                ID study @ ''.''))\<rparr>), w1)
          else
          (case resBody of
            DecodeError err \<Rightarrow>
              (Inr (result\<lparr>Error := Some (ErrorString
                 (''Couldn't properly decode results from patient query with Study ID: '' @
                  ID study @ ''.  Error: '' @ err))\<rparr>), w1)
          | Decoded patients \<Rightarrow>
              if length (Entry patients) = 0 then
                (Inr (result\<lparr>Error := Some (ErrorString
                   (''Couldn't find patient with Study ID '' @ ID study))\<rparr>), w1)
              else if length (Entry patients) > 1 then
                (Inr (result\<lparr>Error := Some (ErrorString
                   (''Found too many patients ('' @ fmtVerbD (int (length (Entry patients))) @
                    '') with Study ID '' @ ID study))\<rparr>), w1)
              else
              (case Entry patients ! 0 of
                PatientResource patientID \<Rightarrow>
                  (case ToRiskServiceCalculationResults sys study
                          (fhirEndpoint @ ''/Patient/'' @ patientID) w1 of
                    (calcResults, w2) \<Rightarrow>
                  (case UpdateRiskAssessmentsAndPies sys fhirEndpoint patientID calcResults
                          basisPieURL w2 of
                    (Some err, w3) \<Rightarrow>
                      (Inr (result\<lparr>FHIRPatientID := patientID, Error := Some err\<rparr>), w3)
                  | (None, w3) \<Rightarrow>
                      (Inr (result\<lparr>FHIRPatientID := patientID,
                            RiskAssessmentCount := int (length calcResults)\<rparr>), w3)))
              | OtherResource ty \<Rightarrow> (Inl (InterfaceConversion (OtherResource ty)), w1)
              | NilResource \<Rightarrow> (Inl (InterfaceConversion NilResource), w1)))))"

text \<open>
  The loop \<open>for _, study := range studies\<close> over the studies in the order in which the
  map iteration yields them.  A panic ends the function: nothing is returned.
\<close>

fun postLoop ::
  "'w sys \<Rightarrow> string \<Rightarrow> Study list \<Rightarrow> string \<Rightarrow> Result list \<Rightarrow> 'w
    \<Rightarrow> (panic + Result list) \<times> 'w" where
  "postLoop sys fhirEndpoint [] basisPieURL results w = (Inr results, w)"
| "postLoop sys fhirEndpoint (study # studies) basisPieURL results w =
     (case postStudy sys fhirEndpoint study basisPieURL w of
        (Inl p, w') \<Rightarrow> (Inl p, w')
      | (Inr result, w') \<Rightarrow>
          postLoop sys fhirEndpoint studies basisPieURL (results @ [result]) w')"

text \<open>
  A \<open>StudyMap\<close> is a Go map from study IDs to studies.  Ranging over it visits every
  entry once, in an order that the language leaves open: \<open>order\<close> is the enumeration of
  the keys that the iteration takes.
\<close>

type_synonym StudyMap = "string \<rightharpoonup> Study"

definition rangeStudies :: "StudyMap \<Rightarrow> string list \<Rightarrow> Study list" where
  "rangeStudies studies order = List.map_filter studies order"

definition iteration_order :: "StudyMap \<Rightarrow> string list \<Rightarrow> bool" where
  "iteration_order studies order = (distinct order \<and> set order = dom studies)"

definition PostRiskAssessments ::
  "'w sys \<Rightarrow> string \<Rightarrow> StudyMap \<Rightarrow> string list \<Rightarrow> string \<Rightarrow> 'w
    \<Rightarrow> (panic + Result list) \<times> 'w" where
  "PostRiskAssessments sys fhirEndpoint studies order basisPieURL w =
     postLoop sys fhirEndpoint (rangeStudies studies order) basisPieURL [] w"

text \<open>
  The spec's words for the identity query: a paged bundle whose pagination is followed
  through the link with the relation \<open>next\<close> until there is none.  The subjects that
  match are then the entries of all pages (\<open>None\<close>: a page could not be fetched, or the
  pages did not end within \<open>fuel\<close> requests).  The choice of the link is that of the
  one loop in the repository that follows pages, in the mock's
  \<open>getPatientSummariesFromFHIR\<close>: the last link with relation \<open>next\<close> and a non-empty URL.
\<close>

definition nextLink :: "(string \<times> string) list \<Rightarrow> string option" where
  "nextLink links =
     foldl (\<lambda>query link. if fst link = ''next'' \<and> snd link \<noteq> '''' then Some (snd link) else query)
       None links"

fun spec_entries_of_all_pages :: "'w sys \<Rightarrow> nat \<Rightarrow> string \<Rightarrow> 'w \<Rightarrow> resource list option" where
  "spec_entries_of_all_pages sys 0 query w = None"
| "spec_entries_of_all_pages sys (Suc fuel) query w =
     (case Do sys query w of
        (DoError err, w') \<Rightarrow> None
      | (Response statusCode status resBody, w') \<Rightarrow>
          if statusCode \<noteq> StatusOK then None
          else
          (case resBody of
             DecodeError err \<Rightarrow> None
           | Decoded bundle \<Rightarrow>
               (case nextLink (Link bundle) of
                  None \<Rightarrow> Some (Entry bundle)
                | Some url \<Rightarrow>
                    (case spec_entries_of_all_pages sys fuel url w' of
                       None \<Rightarrow> None
                     | Some entries \<Rightarrow> Some (Entry bundle @ entries)))))"

text \<open>A response with the links of its bundle removed.\<close>

fun dropLinks :: "http_result \<Rightarrow> http_result" where
  "dropLinks (Response statusCode status (Decoded bundle)) =
     Response statusCode status (Decoded (bundle\<lparr>Link := []\<rparr>))"
| "dropLinks r = r"

section \<open>Serving the pies (package server)\<close>

text \<open>
  \<open>bson.IsObjectIdHex\<close> and \<open>bson.ObjectIdHex\<close> of the mgo library: an object id in hex
  is 24 hexadecimal digits (of either case), which stand for 12 bytes.
\<close>

definition isHexDigit :: "char \<Rightarrow> bool" where
  "isHexDigit c =
     (isDigit c \<or> (97 \<le> (of_char c :: nat) \<and> (of_char c :: nat) \<le> 102) \<or>
      (65 \<le> (of_char c :: nat) \<and> (of_char c :: nat) \<le> 70))"

definition hexVal :: "char \<Rightarrow> nat" where
  "hexVal c =
     (if isDigit c then of_char c - 48
      else if 97 \<le> (of_char c :: nat) then of_char c - 87
      else of_char c - 55)"

definition IsObjectIdHex :: "string \<Rightarrow> bool" where
  "IsObjectIdHex s = (length s = 24 \<and> list_all isHexDigit s)"

fun ObjectIdHex :: "string \<Rightarrow> nat list" where
  "ObjectIdHex (c1 # c2 # cs) = (16 * hexVal c1 + hexVal c2) # ObjectIdHex cs"
| "ObjectIdHex cs = []"

text \<open>
  What the handler writes to the gin context: \<open>c.JSON(code, pie)\<close>, \<open>c.Status(code)\<close>
  or \<open>c.String(code, text)\<close>.
\<close>

datatype response = JSON int Pie | Status int | String int string

definition StatusNotFound :: int where
  "StatusNotFound = 404"

definition StatusBadRequest :: int where
  "StatusBadRequest = 400"

text \<open>
  The handler of \<open>GET /pies/:id\<close> that \<open>RegisterPieHandler\<close> registers (\<open>ident\<close> is
  the path parameter \<open>id\<close>).  The pie
  collection is given by what \<open>pieCollection.FindId(id).One(pie)\<close> returns for an
  object id: an error (\<open>Inl\<close>, for instance mgo's \<open>not found\<close>) or the stored pie.
\<close>

definition pieHandler :: "(nat list \<Rightarrow> error + Pie) \<Rightarrow> string \<Rightarrow> response" where
  "pieHandler pieCollection ident =
     (if IsObjectIdHex ident then
        (case pieCollection (ObjectIdHex ident) of
           Inr pie \<Rightarrow> JSON StatusOK pie
         | Inl err \<Rightarrow> Status StatusNotFound)
      else String StatusBadRequest ''Bad ID format for requested Pie. Should be a BSON Id'')"


text \<open>
  A server that answers every query with patients only: no bundle it sends has an entry
  whose resource is of another type or nil.
\<close>

fun isPatient :: "resource \<Rightarrow> bool" where
  "isPatient (PatientResource patientID) = True"
| "isPatient x = False"

definition answers_patients_only :: "'w sys \<Rightarrow> bool" where
  "answers_patients_only sys =
     (\<forall>url w. case fst (Do sys url w) of
                 Response statusCode status (Decoded patients) \<Rightarrow>
                   list_all isPatient (Entry patients)
               | _ \<Rightarrow> True)"


text \<open>A string occurs inside another one.\<close>

definition occurs_in :: "string \<Rightarrow> string \<Rightarrow> bool" where
  "occurs_in x y = (\<exists>pre post. y = pre @ x @ post)"

text \<open>Concrete data: the first record of the test fixture, and variations of it.\<close>

definition record0 :: Record where
  "record0 = \<lparr>StudyID = SidOther ''float64'' ''1'', EventName = ''initial_arm_1'',
     RiskFactorDate = ''2015-12-07'', ClinicalRisk = ''3'', FunctionalRisk = ''2'',
     PsychosocialRisk = ''1'', UtilizationRisk = ''3'', PerceivedRisk = ''3''\<rparr>"

definition study1 :: Study where
  "study1 = \<lparr>ID = ''1'', Records = [record0]\<rparr>"

text \<open>A complete record whose clinical score is not an integer, and a study holding it.\<close>

definition record_bad_score :: Record where
  "record_bad_score = record0\<lparr>ClinicalRisk := ''x''\<rparr>"

definition study_bad_score :: Study where
  "study_bad_score = \<lparr>ID = ''1'', Records = [record_bad_score]\<rparr>"


text \<open>
  A concrete FHIR server and risk-service library for examples.  The state of the world
  is the log of the effects so far.  The server knows the two patients of the test
  fixture under the study IDs \<open>1\<close> and \<open>a\<close>, nobody under \<open>FOO\<close> and two patients under
  \<open>dup\<close>; it cannot be reached for \<open>down\<close>, answers 500 for \<open>err\<close> and sends a body that
  is not JSON for \<open>junk\<close>; for \<open>odd\<close> it returns one entry that is an
  \<open>OperationOutcome\<close>, and for \<open>paged\<close> a first page of one patient with a link to a
  second page of another patient.  A request for a study ID with a blank cannot be
  built.  The update fails for the patient \<open>p3\<close>, whom the server knows as \<open>c\<close>.
\<close>

definition demo_Do :: "string \<Rightarrow> string list \<Rightarrow> http_result \<times> string list" where
  "demo_Do url w =
     (if url = ''http://fhir/Patient?identifier=1'' then
        Response 200 ''200 OK'' (Decoded \<lparr>Entry = [PatientResource ''56fd63cdac1c5d77f6f695a1''], Link = []\<rparr>)
      else if url = ''http://fhir/Patient?identifier=a'' then
        Response 200 ''200 OK'' (Decoded \<lparr>Entry = [PatientResource ''56fd63cdac1c5d77f6f695a2''], Link = []\<rparr>)
      else if url = ''http://fhir/Patient?identifier=c'' then
        Response 200 ''200 OK'' (Decoded \<lparr>Entry = [PatientResource ''p3''], Link = []\<rparr>)
      else if url = ''http://fhir/Patient?identifier=dup'' then
        Response 200 ''200 OK'' (Decoded \<lparr>Entry = [PatientResource ''p4'', PatientResource ''p5''], Link = []\<rparr>)
      else if url = ''http://fhir/Patient?identifier=down'' then
        DoError ''connection refused''
      else if url = ''http://fhir/Patient?identifier=err'' then
        Response 500 ''500 Internal Server Error'' (DecodeError ''unexpected end of JSON input'')
      else if url = ''http://fhir/Patient?identifier=junk'' then
        Response 200 ''200 OK'' (DecodeError ''invalid character'')
      else if url = ''http://fhir/Patient?identifier=odd'' then
        Response 200 ''200 OK''
          (Decoded \<lparr>Entry = [OtherResource ''*models.OperationOutcome''], Link = []\<rparr>)
      else if url = ''http://fhir/Patient?identifier=paged'' then
        Response 200 ''200 OK''
          (Decoded \<lparr>Entry = [PatientResource ''p1''],
                    Link = [(''next'', ''http://fhir/Patient?identifier=paged&page=2'')]\<rparr>)
      else if url = ''http://fhir/Patient?identifier=paged&page=2'' then
        Response 200 ''200 OK'' (Decoded \<lparr>Entry = [PatientResource ''p2''], Link = []\<rparr>)
      else Response 200 ''200 OK'' (Decoded \<lparr>Entry = [], Link = []\<rparr>),
      w @ [''GET '' @ url])"

definition demo_sys :: "string list sys" where
  "demo_sys =
     \<lparr>NewObjectId = (\<lambda>w. (''oid'' @ digitsOf (length w), w @ [''NewObjectId''])),
      Now = (\<lambda>w. (length w, w @ [''Now''])),
      NewRequest = (\<lambda>url. if CHR '' '' \<in> set url then Some ''invalid URL'' else None),
      Do = demo_Do,
      UpdateRiskAssessmentsAndPies = (\<lambda>fhirEndpoint patientID results basisPieURL w.
        (if patientID = ''p3'' then Some (ErrorString ''update failed'') else None,
         w @ [''Update '' @ patientID]))\<rparr>"

text \<open>The same server with the links of every bundle removed.\<close>

definition demo_Do_without_links :: "string \<Rightarrow> string list \<Rightarrow> http_result \<times> string list" where
  "demo_Do_without_links url w = (dropLinks (fst (demo_Do url w)), snd (demo_Do url w))"

text \<open>A study of one record (the first record of the fixture) under a given ID.\<close>

definition study_of :: "string \<Rightarrow> Study" where
  "study_of sid = \<lparr>ID = sid, Records = [record0\<lparr>StudyID := SidString sid\<rparr>]\<rparr>"

definition studies_FOO_odd :: StudyMap where
  "studies_FOO_odd = [''FOO'' \<mapsto> study_of ''FOO'', ''odd'' \<mapsto> study_of ''odd'']"

definition studies_odd :: StudyMap where
  "studies_odd = [''odd'' \<mapsto> study_of ''odd'']"

definition studies_1_FOO :: StudyMap where
  "studies_1_FOO = [''1'' \<mapsto> study1, ''FOO'' \<mapsto> study_of ''FOO'']"

text \<open>A pie collection with one stored pie, and the pie.\<close>

definition pie1 :: Pie where
  "pie1 = \<lparr>Id = ''56fd63cdac1c5d77f6f695a1'', Created = 0,
           Patient = ''http://fhir/Patient/56fd63cdac1c5d77f6f695a1'',
           Slices = [\<lparr>Name = ''Clinical Risk'', Value = 1, Weight = 25, MaxValue = 4\<rparr>,
                     \<lparr>Name = ''Functional and Environmental Risk'', Value = 2, Weight = 25,
                      MaxValue = 4\<rparr>,
                     \<lparr>Name = ''Psychosocial and Mental Health Risk'', Value = 3, Weight = 25,
                      MaxValue = 4\<rparr>,
                     \<lparr>Name = ''Utilization Risk'', Value = 4, Weight = 25, MaxValue = 4\<rparr>]\<rparr>"

definition pies_one :: "nat list \<Rightarrow> error + Pie" where
  "pies_one oid =
     (if oid = ObjectIdHex ''56fd63cdac1c5d77f6f695a1'' then Inr pie1
      else Inl (ErrorString ''not found''))"


section \<open>Adding records to a study\<close>

lemma fmtVerbS_names_id: "occurs_in (fmtSprint v) (fmtVerbS v)"
proof (cases v)
  case SidNil
  have "fmtVerbS SidNil = ''%!s('' @ fmtSprint SidNil @ '')''" by simp
  then show ?thesis unfolding SidNil occurs_in_def by blast
next
  case (SidString s)
  have "fmtVerbS (SidString s) = [] @ fmtSprint (SidString s) @ []" by simp
  then show ?thesis unfolding SidString occurs_in_def by blast
next
  case (SidOther ty x)
  have "fmtVerbS (SidOther ty x) = (''%!s('' @ ty @ ''='') @ fmtSprint (SidOther ty x) @ '')''"
    by simp
  then show ?thesis unfolding SidOther occurs_in_def by blast
qed

lemma occurs_in_append: "occurs_in x y \<Longrightarrow> occurs_in x (a @ y @ b)"
proof -
  assume "occurs_in x y"
  then obtain pre post where "y = pre @ x @ post" unfolding occurs_in_def by blast
  then have "a @ y @ b = (a @ pre) @ x @ (post @ b)" by simp
  then show ?thesis unfolding occurs_in_def by blast
qed

text \<open>
  C10.  A record whose study identifier is exactly the empty string is appended to any
  study without an error and without touching the study's ID, also when the study
  already has a non-empty ID: the mismatch check is skipped for it.
\<close>

theorem AddRecord_empty_study_id:
  "AddRecord s (r\<lparr>StudyID := SidString ''''\<rparr>) =
     (s\<lparr>Records := Records s @ [r\<lparr>StudyID := SidString ''''\<rparr>]\<rparr>, None)"
  by (simp add: AddRecord_def)

text \<open>
  C4, as stated, fails: the study \<open>study1\<close> has the ID \<open>1\<close>, the record below
  normalizes to the empty string, which differs from \<open>1\<close>, and yet the call returns no
  error and the study has grown by the record.
\<close>

theorem AddRecord_mismatch_counterexample:
  "ID study1 \<noteq> '''' \<and>
   StudyIDString (record0\<lparr>StudyID := SidString ''''\<rparr>) \<noteq> ID study1 \<and>
   snd (AddRecord study1 (record0\<lparr>StudyID := SidString ''''\<rparr>)) = None \<and>
   fst (AddRecord study1 (record0\<lparr>StudyID := SidString ''''\<rparr>)) \<noteq> study1"
  by (simp add: AddRecord_def study1_def record0_def StudyIDString_def)

text \<open>
  C4, amended.  For a study that already has an ID and a record whose study identifier
  is not the empty string and whose normalized ID differs from the study's, AddRecord
  returns the error built from both IDs (the record's normalized ID and the study's ID
  both occur in the message) and leaves the study as it was.
\<close>

theorem AddRecord_mismatch:
  assumes "ID s \<noteq> ''''" and "StudyID r \<noteq> SidString ''''" and "StudyIDString r \<noteq> ID s"
  shows "AddRecord s r =
           (s, Some (ErrorString (''Record with study ID '' @ fmtVerbS (StudyID r) @
                     '' cannot be added to study with ID '' @ ID s)))
         \<and> occurs_in (StudyIDString r)
              (''Record with study ID '' @ fmtVerbS (StudyID r) @
               '' cannot be added to study with ID '' @ ID s)
         \<and> occurs_in (ID s)
              (''Record with study ID '' @ fmtVerbS (StudyID r) @
               '' cannot be added to study with ID '' @ ID s)"
proof -
  let ?msg = "''Record with study ID '' @ fmtVerbS (StudyID r) @
              '' cannot be added to study with ID '' @ ID s"
  have eq: "AddRecord s r = (s, Some (ErrorString ?msg))"
    using assms by (auto simp add: AddRecord_def)
  have "occurs_in (StudyIDString r) (fmtVerbS (StudyID r))"
    unfolding StudyIDString_def by (rule fmtVerbS_names_id)
  then have a: "occurs_in (StudyIDString r) ?msg"
    by (rule occurs_in_append)
  have "?msg = (''Record with study ID '' @ fmtVerbS (StudyID r) @
              '' cannot be added to study with ID '') @ ID s @ []" by simp
  then have b: "occurs_in (ID s) ?msg" unfolding occurs_in_def by blast
  from eq a b show ?thesis by simp
qed

theorem AddRecord_mismatch_witness:
  "AddRecord study1 (record0\<lparr>StudyID := SidOther ''int'' ''2''\<rparr>) =
     (study1,
      Some (ErrorString ''Record with study ID %!s(int=2) cannot be added to study with ID 1''))"
  using AddRecord_mismatch [of study1 "record0\<lparr>StudyID := SidOther ''int'' ''2''\<rparr>"]
  by (simp add: study1_def record0_def StudyIDString_def)

section \<open>Converting a study\<close>

lemma ToPie_ok:
  "isl (fst (ToPie env r url w)) =
     (\<not> (IsRiskFactorsComplete r \<and> Atoi (ClinicalRisk r) \<noteq> None \<and>
      Atoi (FunctionalRisk r) \<noteq> None \<and> Atoi (PsychosocialRisk r) \<noteq> None \<and>
      Atoi (UtilizationRisk r) \<noteq> None))"
  by (simp add: ToPie_def newSlice_def split: prod.split option.split)

lemma conv_ok: "isl (fst (ToRiskServiceCalculationResult env r url w)) = (\<not> convertible r)"
proof (cases "ToPie env r url w")
  case (Pair x w')
  show ?thesis
  proof (cases x)
    case (Inl e)
    with Pair ToPie_ok [of env r url w] show ?thesis
      by (auto simp add: ToRiskServiceCalculationResult_def convertible_def)
  next
    case (Inr pie)
    with Pair ToPie_ok [of env r url w] show ?thesis
      by (simp add: ToRiskServiceCalculationResult_def convertible_def RiskFactorDateTime_def
          split: option.split)
  qed
qed

lemma convertRecords_length:
  "length (fst (convertRecords env url rs acc w)) = length acc + length (filter convertible rs)"
proof (induction rs arbitrary: acc w)
  case Nil
  then show ?case by simp
next
  case (Cons r rs)
  show ?case
  proof (cases "ToRiskServiceCalculationResult env r url w")
    case (Pair x w')
    show ?thesis
    proof (cases x)
      case (Inl e)
      with Pair conv_ok [of env r url w] have "\<not> convertible r" by simp
      with Pair Inl Cons.IH [of acc w'] show ?thesis by simp
    next
      case (Inr res)
      with Pair conv_ok [of env r url w] have "convertible r" by simp
      with Pair Inr Cons.IH [of "acc @ [res]" w'] show ?thesis by simp
    qed
  qed
qed


lemma results_length:
  "length (fst (ToRiskServiceCalculationResults env s url w)) = length (filter convertible (Records s))"
  using convertRecords_length [of env url "Records s" "[]" w]
  by (simp add: ToRiskServiceCalculationResults_def SortResultsByAsOfDate_def case_prod_beta)

lemma results_sorted:
  "sorted (map AsOf (fst (ToRiskServiceCalculationResults env s url w)))"
  by (simp add: ToRiskServiceCalculationResults_def SortResultsByAsOfDate_def case_prod_beta)

lemma convertible_complete: "convertible r \<Longrightarrow> IsRiskFactorsComplete r"
  by (simp add: convertible_def)

lemma filter_le: "length (filter convertible rs) \<le> length (filter IsRiskFactorsComplete rs)"
  by (induction rs) (auto dest: convertible_complete)

text \<open>
  C3, as stated, fails: the study \<open>study_bad_score\<close> holds one record, which is
  complete (no field is empty), and no incomplete one, and yet the conversion returns
  no result: the clinical score \<open>x\<close> is not an integer, so the record is dropped.
\<close>

theorem results_count_counterexample:
  "Records study_bad_score = [record_bad_score] \<and>
   IsRiskFactorsComplete record_bad_score \<and>
   fst (ToRiskServiceCalculationResults counter_env study_bad_score ''http://fhir/Patient/1'' 0)
     = []"
  by (simp add: study_bad_score_def record_bad_score_def record0_def IsRiskFactorsComplete_def
      ToRiskServiceCalculationResults_def ToRiskServiceCalculationResult_def ToPie_def
      newSlice_def Atoi_def isDigit_def counter_env_def SortResultsByAsOfDate_def)

text \<open>
  C3, amended.  The conversion of a study returns exactly one result for every record
  that is complete and whose four category scores are integers and whose date parses;
  these are at most the N complete records.  The results are in ascending order of
  \<open>AsOf\<close>.
\<close>

theorem results_count_sorted:
  "length (fst (ToRiskServiceCalculationResults env s patientURL w))
     = length (filter convertible (Records s)) \<and>
   length (filter convertible (Records s))
     \<le> length (filter IsRiskFactorsComplete (Records s)) \<and>
   sorted (map AsOf (fst (ToRiskServiceCalculationResults env s patientURL w)))"
  using results_length [of env s patientURL w] results_sorted [of env s patientURL w]
    filter_le [of "Records s"]
  by simp

section \<open>The score of a result\<close>

lemma scoreLoop_inv:
  "n \<le> length sl \<Longrightarrow>
   (case foldl (scoreStep sl) None [0..<n] of
      None \<Rightarrow> n = 0
    | Some i \<Rightarrow> i < n \<and> (\<forall>j<n. Value (sl ! j) \<le> Value (sl ! i)) \<and>
               (\<forall>j<i. Value (sl ! j) < Value (sl ! i)))"
proof (induction n)
  case 0
  then show ?case by simp
next
  case (Suc n)
  then have IH: "case foldl (scoreStep sl) None [0..<n] of
      None \<Rightarrow> n = 0
    | Some i \<Rightarrow> i < n \<and> (\<forall>j<n. Value (sl ! j) \<le> Value (sl ! i)) \<and>
               (\<forall>j<i. Value (sl ! j) < Value (sl ! i))" by simp
  show ?case
  proof (cases "foldl (scoreStep sl) None [0..<n]")
    case None
    with IH have "n = 0" by simp
    with None have "foldl (scoreStep sl) None [0..<Suc n] = Some 0"
      by (simp add: scoreStep_def)
    with \<open>n = 0\<close> show ?thesis by simp
  next
    case (Some i)
    with IH have i: "i < n" "\<forall>j<n. Value (sl ! j) \<le> Value (sl ! i)"
      "\<forall>j<i. Value (sl ! j) < Value (sl ! i)" by simp_all
    show ?thesis
    proof (cases "Value (sl ! i) < Value (sl ! n)")
      case True
      have "\<forall>j<Suc n. Value (sl ! j) \<le> Value (sl ! n)"
        using i(2) True by (auto simp add: less_Suc_eq)
      moreover have "\<forall>j<n. Value (sl ! j) < Value (sl ! n)"
        using i(2) True by fastforce
      moreover have "foldl (scoreStep sl) None [0..<Suc n] = Some n"
        using Some True by (simp add: scoreStep_def)
      ultimately show ?thesis by simp
    next
      case False
      have "\<forall>j<Suc n. Value (sl ! j) \<le> Value (sl ! i)"
        using i(2) False by (auto simp add: less_Suc_eq)
      moreover have "foldl (scoreStep sl) None [0..<Suc n] = Some i"
        using Some False by (simp add: scoreStep_def)
      ultimately show ?thesis using i by simp
    qed
  qed
qed

lemma scoreLoop_first_max:
  assumes "sl \<noteq> []"
  shows "scoreLoop sl = Some (firstMaximalSlice (map Value sl)) \<and>
         firstMaximalSlice (map Value sl) < length sl \<and>
         Value (sl ! firstMaximalSlice (map Value sl)) = Max (set (map Value sl))"
proof -
  let ?vs = "map Value sl"
  have inv: "case scoreLoop sl of
      None \<Rightarrow> length sl = 0
    | Some i \<Rightarrow> i < length sl \<and> (\<forall>j<length sl. Value (sl ! j) \<le> Value (sl ! i)) \<and>
               (\<forall>j<i. Value (sl ! j) < Value (sl ! i))"
    unfolding scoreLoop_def by (rule scoreLoop_inv) simp
  with assms obtain i where i: "scoreLoop sl = Some i" "i < length sl"
    "\<forall>j<length sl. Value (sl ! j) \<le> Value (sl ! i)" "\<forall>j<i. Value (sl ! j) < Value (sl ! i)"
    by (cases "scoreLoop sl") auto
  have mx: "Max (set ?vs) = Value (sl ! i)"
  proof (rule Max_eqI)
    show "finite (set ?vs)" by simp
    show "\<And>y. y \<in> set ?vs \<Longrightarrow> y \<le> Value (sl ! i)"
      using i(3) by (auto simp add: in_set_conv_nth)
    show "Value (sl ! i) \<in> set ?vs" using i(2) by simp
  qed
  have "takeWhile (\<lambda>v. v \<noteq> Max (set ?vs)) ?vs = take i ?vs"
  proof (rule takeWhile_eq_take_P_nth)
    fix j assume "j < i" "j < length ?vs"
    then show "?vs ! j \<noteq> Max (set ?vs)" using i(4) mx by auto
  next
    assume "i < length ?vs"
    then show "\<not> ?vs ! i \<noteq> Max (set ?vs)" using mx by simp
  qed
  then have "firstMaximalSlice ?vs = i" using i(2) by (simp add: firstMaximalSlice_def)
  with i mx show ?thesis by simp
qed

lemma ToPie_slices:
  assumes "IsRiskFactorsComplete r"
    and "Atoi (ClinicalRisk r) = Some c" and "Atoi (FunctionalRisk r) = Some f"
    and "Atoi (PsychosocialRisk r) = Some p" and "Atoi (UtilizationRisk r) = Some u"
  shows "\<exists>pie w'. ToPie env r url w = (Inr pie, w') \<and> map Value (Slices pie) = [c, f, p, u]"
  using assms by (simp add: ToPie_def newSlice_def split: prod.split)


text \<open>
  C5.  For a complete record whose four category scores are the integers \<open>c\<close>, \<open>f\<close>,
  \<open>p\<close>, \<open>u\<close> and whose date parses, the conversion succeeds, the slices carry these
  values in category order, the score pointer refers to the first slice whose value is
  the maximum, and the score is that maximum.
\<close>

theorem score_first_maximal_slice:
  assumes "IsRiskFactorsComplete r"
    and "Atoi (ClinicalRisk r) = Some c" and "Atoi (FunctionalRisk r) = Some f"
    and "Atoi (PsychosocialRisk r) = Some p" and "Atoi (UtilizationRisk r) = Some u"
    and "ParseInLocation (RiskFactorDate r) = Some t"
  shows "\<exists>result w'. ToRiskServiceCalculationResult env r url w = (Inr result, w') \<and>
           map Value (Slices (Pie result)) = [c, f, p, u] \<and>
           Score result = Some (firstMaximalSlice [c, f, p, u]) \<and>
           ScoreValue result = Some (Max {c, f, p, u})"
proof -
  from ToPie_slices [OF assms(1-5), of env url w]
  obtain pie w' where pie: "ToPie env r url w = (Inr pie, w')"
    "map Value (Slices pie) = [c, f, p, u]" by auto
  then have ne: "Slices pie \<noteq> []" by auto
  let ?result = "\<lparr>AsOf = t, Score = scoreLoop (Slices pie), Pie = pie\<rparr>"
  have eq: "ToRiskServiceCalculationResult env r url w = (Inr ?result, w')"
    using pie(1) assms(6) by (simp add: ToRiskServiceCalculationResult_def RiskFactorDateTime_def)
  from scoreLoop_first_max [OF ne] pie(2)
  have sc: "scoreLoop (Slices pie) = Some (firstMaximalSlice [c, f, p, u])"
    "Value (Slices pie ! firstMaximalSlice [c, f, p, u]) = Max (set [c, f, p, u])"
    by simp_all
  have "ScoreValue ?result = Some (Max {c, f, p, u})"
    using sc by (simp add: ScoreValue_def insert_commute)
  with eq pie(2) sc(1) show ?thesis by simp
qed


theorem score_first_maximal_slice_witness:
  "\<exists>result w'. ToRiskServiceCalculationResult counter_env record0 ''http://fhir/Patient/1'' 0
                  = (Inr result, w') \<and>
      map Value (Slices (Pie result)) = [3, 2, 1, 3] \<and>
      Score result = Some 0 \<and> ScoreValue result = Some 3"
  using score_first_maximal_slice [of record0 3 2 1 3 "(2015, 12, 7)" counter_env
      "''http://fhir/Patient/1''" 0]
  by (simp add: record0_def IsRiskFactorsComplete_def Atoi_def isDigit_def decimal_def
      digitVal_def ParseInLocation_def daysIn_def isLeap_def firstMaximalSlice_def)

section \<open>Resolving and posting one study\<close>

text \<open>
  The conversion reads nothing of its surroundings but the object ids and the clock.
\<close>

lemma ToPie_env:
  "NewObjectId env' = NewObjectId env \<Longrightarrow> Now env' = Now env \<Longrightarrow>
   ToPie env' r url w = ToPie env r url w"
  by (simp add: ToPie_def)

lemma ToRiskServiceCalculationResult_env:
  "NewObjectId env' = NewObjectId env \<Longrightarrow> Now env' = Now env \<Longrightarrow>
   ToRiskServiceCalculationResult env' r url w = ToRiskServiceCalculationResult env r url w"
  by (simp add: ToRiskServiceCalculationResult_def ToPie_env [of env' env])

lemma convertRecords_env:
  "NewObjectId env' = NewObjectId env \<Longrightarrow> Now env' = Now env \<Longrightarrow>
   convertRecords env' url rs acc w = convertRecords env url rs acc w"
proof (induction rs arbitrary: acc w)
  case Nil
  then show ?case by simp
next
  case (Cons r rs)
  then show ?case
    by (simp add: ToRiskServiceCalculationResult_env [of env' env] split: prod.split sum.split)
qed

lemma ToRiskServiceCalculationResults_env:
  "NewObjectId env' = NewObjectId env \<Longrightarrow> Now env' = Now env \<Longrightarrow>
   ToRiskServiceCalculationResults env' s url w = ToRiskServiceCalculationResults env s url w"
  by (simp add: ToRiskServiceCalculationResults_def convertRecords_env [of env' env])

text \<open>
  What the iteration for one study returns, case by case.
\<close>

lemma postStudy_request_error:
  assumes "NewRequest sys (fhirEndpoint @ ''/Patient?identifier='' @ ID study) = Some err"
  shows "postStudy sys fhirEndpoint study basisPieURL w =
    (Inr \<lparr>Result_StudyID = ID study, FHIRPatientID = '''', RiskAssessmentCount = 0,
           Error = Some (ErrorString
             (''Couldn't create HTTP request for querying patient with Study ID: '' @
              ID study @ ''.  Error: '' @ err))\<rparr>, w)"
  using assms by (simp add: postStudy_def Let_def)

lemma postStudy_transport_error:
  assumes "NewRequest sys (fhirEndpoint @ ''/Patient?identifier='' @ ID study) = None"
    and "Do sys (fhirEndpoint @ ''/Patient?identifier='' @ ID study) w = (DoError err, w1)"
  shows "postStudy sys fhirEndpoint study basisPieURL w =
    (Inr \<lparr>Result_StudyID = ID study, FHIRPatientID = '''', RiskAssessmentCount = 0,
           Error = Some (ErrorString
             (''Couldn't query FHIR server for patient with Study ID: '' @
              ID study @ ''.  Error: '' @ err))\<rparr>, w1)"
  using assms by (simp add: postStudy_def Let_def)

lemma postStudy_status_error:
  assumes "NewRequest sys (fhirEndpoint @ ''/Patient?identifier='' @ ID study) = None"
    and "Do sys (fhirEndpoint @ ''/Patient?identifier='' @ ID study) w =
           (Response statusCode status resBody, w1)"
    and "statusCode \<noteq> StatusOK"
  shows "postStudy sys fhirEndpoint study basisPieURL w =
    (Inr \<lparr>Result_StudyID = ID study, FHIRPatientID = '''', RiskAssessmentCount = 0,
           Error = Some (ErrorString
             (''Received HTTP '' @ fmtVerbD statusCode @ '' '' @ status @
              '' from FHIR server when querying patient with Study ID: '' @
              ID study @ ''.''))\<rparr>, w1)"
  using assms by (simp add: postStudy_def Let_def)

lemma postStudy_decode_error:
  assumes "NewRequest sys (fhirEndpoint @ ''/Patient?identifier='' @ ID study) = None"
    and "Do sys (fhirEndpoint @ ''/Patient?identifier='' @ ID study) w =
           (Response StatusOK status (DecodeError err), w1)"
  shows "postStudy sys fhirEndpoint study basisPieURL w =
    (Inr \<lparr>Result_StudyID = ID study, FHIRPatientID = '''', RiskAssessmentCount = 0,
           Error = Some (ErrorString
             (''Couldn't properly decode results from patient query with Study ID: '' @
              ID study @ ''.  Error: '' @ err))\<rparr>, w1)"
  using assms by (simp add: postStudy_def Let_def)

lemma postStudy_not_found:
  assumes "NewRequest sys (fhirEndpoint @ ''/Patient?identifier='' @ ID study) = None"
    and "Do sys (fhirEndpoint @ ''/Patient?identifier='' @ ID study) w =
           (Response StatusOK status (Decoded patients), w1)"
    and "Entry patients = []"
  shows "postStudy sys fhirEndpoint study basisPieURL w =
    (Inr \<lparr>Result_StudyID = ID study, FHIRPatientID = '''', RiskAssessmentCount = 0,
           Error = Some (ErrorString
             (''Couldn't find patient with Study ID '' @ ID study))\<rparr>, w1)"
  using assms by (simp add: postStudy_def Let_def)

lemma postStudy_too_many:
  assumes "NewRequest sys (fhirEndpoint @ ''/Patient?identifier='' @ ID study) = None"
    and "Do sys (fhirEndpoint @ ''/Patient?identifier='' @ ID study) w =
           (Response StatusOK status (Decoded patients), w1)"
    and "1 < length (Entry patients)"
  shows "postStudy sys fhirEndpoint study basisPieURL w =
    (Inr \<lparr>Result_StudyID = ID study, FHIRPatientID = '''', RiskAssessmentCount = 0,
           Error = Some (ErrorString
             (''Found too many patients ('' @ fmtVerbD (int (length (Entry patients))) @
              '') with Study ID '' @ ID study))\<rparr>, w1)"
  using assms by (auto simp add: postStudy_def Let_def)

lemma postStudy_one_patient:
  assumes "NewRequest sys (fhirEndpoint @ ''/Patient?identifier='' @ ID study) = None"
    and "Do sys (fhirEndpoint @ ''/Patient?identifier='' @ ID study) w =
           (Response StatusOK status (Decoded patients), w1)"
    and "Entry patients = [PatientResource patientID]"
    and "ToRiskServiceCalculationResults sys study (fhirEndpoint @ ''/Patient/'' @ patientID) w1
           = (calcResults, w2)"
    and "UpdateRiskAssessmentsAndPies sys fhirEndpoint patientID calcResults basisPieURL w2
           = (e, w3)"
  shows "postStudy sys fhirEndpoint study basisPieURL w =
    (Inr \<lparr>Result_StudyID = ID study, FHIRPatientID = patientID,
           RiskAssessmentCount = (case e of None \<Rightarrow> int (length calcResults) | Some err \<Rightarrow> 0),
           Error = e\<rparr>, w3)"
  using assms by (cases e) (simp_all add: postStudy_def Let_def)

lemma postStudy_panic:
  assumes "NewRequest sys (fhirEndpoint @ ''/Patient?identifier='' @ ID study) = None"
    and "Do sys (fhirEndpoint @ ''/Patient?identifier='' @ ID study) w =
           (Response StatusOK status (Decoded patients), w1)"
    and "Entry patients = [x]" and "\<forall>patientID. x \<noteq> PatientResource patientID"
  shows "postStudy sys fhirEndpoint study basisPieURL w = (Inl (InterfaceConversion x), w1)"
  using assms by (cases x) (simp_all add: postStudy_def Let_def)

lemma message_kinds_differ:
  "''Couldn't find patient with Study ID '' @ a \<noteq> ''Found too many patients ('' @ b"
  "''Couldn't find patient with Study ID '' @ a \<noteq>
     ''Couldn't create HTTP request for querying patient with Study ID: '' @ c"
  "''Couldn't find patient with Study ID '' @ a \<noteq>
     ''Couldn't query FHIR server for patient with Study ID: '' @ c"
  "''Couldn't find patient with Study ID '' @ a \<noteq> ''Received HTTP '' @ c"
  "''Couldn't find patient with Study ID '' @ a \<noteq>
     ''Couldn't properly decode results from patient query with Study ID: '' @ c"
  "''Found too many patients ('' @ b \<noteq>
     ''Couldn't create HTTP request for querying patient with Study ID: '' @ c"
  "''Found too many patients ('' @ b \<noteq>
     ''Couldn't query FHIR server for patient with Study ID: '' @ c"
  "''Found too many patients ('' @ b \<noteq> ''Received HTTP '' @ c"
  "''Found too many patients ('' @ b \<noteq>
     ''Couldn't properly decode results from patient query with Study ID: '' @ c"
  by simp_all

lemma postStudy_StudyID:
  "postStudy sys fhirEndpoint study basisPieURL w = (Inr result, w') \<Longrightarrow>
   Result_StudyID result = ID study"
  by (auto simp add: postStudy_def Let_def
      split: option.splits prod.splits http_result.splits body.splits if_splits resource.splits)

lemma postStudy_error_count:
  "postStudy sys fhirEndpoint study basisPieURL w = (Inr result, w') \<Longrightarrow>
   Error result \<noteq> None \<Longrightarrow> RiskAssessmentCount result = 0"
  by (auto simp add: postStudy_def Let_def
      split: option.splits prod.splits http_result.splits body.splits if_splits resource.splits)

lemmas demo_simps = demo_sys_def demo_Do_def study_of_def record0_def StatusOK_def
  fmtVerbD_def digitsOf.simps digitChar_def

lemmas conv_simps = ToRiskServiceCalculationResults_def ToRiskServiceCalculationResult_def
  ToPie_def newSlice_def Atoi_def isDigit_def decimal_def digitVal_def ParseInLocation_def
  daysIn_def isLeap_def IsRiskFactorsComplete_def RiskFactorDateTime_def
  SortResultsByAsOfDate_def

text \<open>
  C6.  The identity query of a study ends in one of three kinds of error: no entry
  gives the message \<open>Couldn't find patient with Study ID\<close> and the study ID; more than
  one entry gives \<open>Found too many patients\<close> with the number of entries and the study
  ID; a request that cannot be built, a failed round trip, a status other than 200 and
  a body that does not decode give four messages that carry the study ID and the
  cause (the text of the underlying error, or the status code and status).  Each of these
  results has an empty patient id and the count 0.  The errors are values of one Go
  type and differ in their messages: no message of one kind equals a message of
  another kind, whatever the IDs, counts and causes in them are.
\<close>

theorem identity_resolution_errors:
  "(NewRequest sys (fhirEndpoint @ ''/Patient?identifier='' @ ID study) = None \<and>
    Do sys (fhirEndpoint @ ''/Patient?identifier='' @ ID study) w =
      (Response StatusOK status (Decoded patients), w1) \<and>
    Entry patients = [] \<longrightarrow>
    postStudy sys fhirEndpoint study basisPieURL w =
      (Inr \<lparr>Result_StudyID = ID study, FHIRPatientID = '''', RiskAssessmentCount = 0,
             Error = Some (ErrorString
               (''Couldn't find patient with Study ID '' @ ID study))\<rparr>, w1)) \<and>
   (NewRequest sys (fhirEndpoint @ ''/Patient?identifier='' @ ID study) = None \<and>
    Do sys (fhirEndpoint @ ''/Patient?identifier='' @ ID study) w =
      (Response StatusOK status (Decoded patients), w1) \<and>
    1 < length (Entry patients) \<longrightarrow>
    postStudy sys fhirEndpoint study basisPieURL w =
      (Inr \<lparr>Result_StudyID = ID study, FHIRPatientID = '''', RiskAssessmentCount = 0,
             Error = Some (ErrorString
               (''Found too many patients ('' @ fmtVerbD (int (length (Entry patients))) @
                '') with Study ID '' @ ID study))\<rparr>, w1)) \<and>
   (NewRequest sys (fhirEndpoint @ ''/Patient?identifier='' @ ID study) = Some err \<longrightarrow>
    postStudy sys fhirEndpoint study basisPieURL w =
      (Inr \<lparr>Result_StudyID = ID study, FHIRPatientID = '''', RiskAssessmentCount = 0,
             Error = Some (ErrorString
               (''Couldn't create HTTP request for querying patient with Study ID: '' @
                ID study @ ''.  Error: '' @ err))\<rparr>, w)) \<and>
   (NewRequest sys (fhirEndpoint @ ''/Patient?identifier='' @ ID study) = None \<and>
    Do sys (fhirEndpoint @ ''/Patient?identifier='' @ ID study) w = (DoError err, w1) \<longrightarrow>
    postStudy sys fhirEndpoint study basisPieURL w =
      (Inr \<lparr>Result_StudyID = ID study, FHIRPatientID = '''', RiskAssessmentCount = 0,
             Error = Some (ErrorString
               (''Couldn't query FHIR server for patient with Study ID: '' @
                ID study @ ''.  Error: '' @ err))\<rparr>, w1)) \<and>
   (NewRequest sys (fhirEndpoint @ ''/Patient?identifier='' @ ID study) = None \<and>
    Do sys (fhirEndpoint @ ''/Patient?identifier='' @ ID study) w =
      (Response statusCode status resBody, w1) \<and>
    statusCode \<noteq> StatusOK \<longrightarrow>
    postStudy sys fhirEndpoint study basisPieURL w =
      (Inr \<lparr>Result_StudyID = ID study, FHIRPatientID = '''', RiskAssessmentCount = 0,
             Error = Some (ErrorString
               (''Received HTTP '' @ fmtVerbD statusCode @ '' '' @ status @
                '' from FHIR server when querying patient with Study ID: '' @
                ID study @ ''.''))\<rparr>, w1)) \<and>
   (NewRequest sys (fhirEndpoint @ ''/Patient?identifier='' @ ID study) = None \<and>
    Do sys (fhirEndpoint @ ''/Patient?identifier='' @ ID study) w =
      (Response StatusOK status (DecodeError err), w1) \<longrightarrow>
    postStudy sys fhirEndpoint study basisPieURL w =
      (Inr \<lparr>Result_StudyID = ID study, FHIRPatientID = '''', RiskAssessmentCount = 0,
             Error = Some (ErrorString
               (''Couldn't properly decode results from patient query with Study ID: '' @
                ID study @ ''.  Error: '' @ err))\<rparr>, w1)) \<and>
   ''Couldn't find patient with Study ID '' @ a \<noteq> ''Found too many patients ('' @ b \<and>
   ''Couldn't find patient with Study ID '' @ a \<noteq>
     ''Couldn't create HTTP request for querying patient with Study ID: '' @ c \<and>
   ''Couldn't find patient with Study ID '' @ a \<noteq>
     ''Couldn't query FHIR server for patient with Study ID: '' @ c \<and>
   ''Couldn't find patient with Study ID '' @ a \<noteq> ''Received HTTP '' @ c \<and>
   ''Couldn't find patient with Study ID '' @ a \<noteq>
     ''Couldn't properly decode results from patient query with Study ID: '' @ c \<and>
   ''Found too many patients ('' @ b \<noteq>
     ''Couldn't create HTTP request for querying patient with Study ID: '' @ c \<and>
   ''Found too many patients ('' @ b \<noteq>
     ''Couldn't query FHIR server for patient with Study ID: '' @ c \<and>
   ''Found too many patients ('' @ b \<noteq> ''Received HTTP '' @ c \<and>
   ''Found too many patients ('' @ b \<noteq>
     ''Couldn't properly decode results from patient query with Study ID: '' @ c"
  by (intro conjI impI; (elim conjE)?;
      (rule postStudy_not_found postStudy_too_many postStudy_request_error
         postStudy_transport_error postStudy_status_error postStudy_decode_error
         message_kinds_differ; assumption?))

theorem identity_resolution_errors_witness:
  "postStudy demo_sys ''http://fhir'' (study_of ''FOO'') ''http://me/pies'' [] =
     (Inr \<lparr>Result_StudyID = ''FOO'', FHIRPatientID = '''', RiskAssessmentCount = 0,
            Error = Some (ErrorString ''Couldn't find patient with Study ID FOO'')\<rparr>,
      [''GET http://fhir/Patient?identifier=FOO'']) \<and>
   postStudy demo_sys ''http://fhir'' (study_of ''dup'') ''http://me/pies'' [] =
     (Inr \<lparr>Result_StudyID = ''dup'', FHIRPatientID = '''', RiskAssessmentCount = 0,
            Error = Some (ErrorString ''Found too many patients (2) with Study ID dup'')\<rparr>,
      [''GET http://fhir/Patient?identifier=dup'']) \<and>
   postStudy demo_sys ''http://fhir'' (study_of ''down'') ''http://me/pies'' [] =
     (Inr \<lparr>Result_StudyID = ''down'', FHIRPatientID = '''', RiskAssessmentCount = 0,
            Error = Some (ErrorString
              ''Couldn't query FHIR server for patient with Study ID: down.  Error: connection refused'')\<rparr>,
      [''GET http://fhir/Patient?identifier=down'']) \<and>
   postStudy demo_sys ''http://fhir'' (study_of ''err'') ''http://me/pies'' [] =
     (Inr \<lparr>Result_StudyID = ''err'', FHIRPatientID = '''', RiskAssessmentCount = 0,
            Error = Some (ErrorString
              ''Received HTTP 500 500 Internal Server Error from FHIR server when querying patient with Study ID: err.'')\<rparr>,
      [''GET http://fhir/Patient?identifier=err''])"
proof -
  have fhir: "NewRequest demo_sys u = None" if "CHR '' '' \<notin> set u" for u
    using that by (simp add: demo_sys_def)
  have 1: "postStudy demo_sys ''http://fhir'' (study_of ''FOO'') ''http://me/pies'' [] =
     (Inr \<lparr>Result_StudyID = ''FOO'', FHIRPatientID = '''', RiskAssessmentCount = 0,
            Error = Some (ErrorString ''Couldn't find patient with Study ID FOO'')\<rparr>,
      [''GET http://fhir/Patient?identifier=FOO''])"
    using identity_resolution_errors [of demo_sys "''http://fhir''" "study_of ''FOO''" "[]"
        "''200 OK''" "\<lparr>Entry = [], Link = []\<rparr>" "[''GET http://fhir/Patient?identifier=FOO'']"
        "''http://me/pies''"]
    by (simp add: demo_simps)
  have 2: "postStudy demo_sys ''http://fhir'' (study_of ''dup'') ''http://me/pies'' [] =
     (Inr \<lparr>Result_StudyID = ''dup'', FHIRPatientID = '''', RiskAssessmentCount = 0,
            Error = Some (ErrorString ''Found too many patients (2) with Study ID dup'')\<rparr>,
      [''GET http://fhir/Patient?identifier=dup''])"
    using identity_resolution_errors [of demo_sys "''http://fhir''" "study_of ''dup''" "[]"
        "''200 OK''" "\<lparr>Entry = [PatientResource ''p4'', PatientResource ''p5''], Link = []\<rparr>"
        "[''GET http://fhir/Patient?identifier=dup'']" "''http://me/pies''"]
    by (simp add: demo_simps)
  have 3: "postStudy demo_sys ''http://fhir'' (study_of ''down'') ''http://me/pies'' [] =
     (Inr \<lparr>Result_StudyID = ''down'', FHIRPatientID = '''', RiskAssessmentCount = 0,
            Error = Some (ErrorString
              ''Couldn't query FHIR server for patient with Study ID: down.  Error: connection refused'')\<rparr>,
      [''GET http://fhir/Patient?identifier=down''])"
    using identity_resolution_errors [of demo_sys "''http://fhir''" "study_of ''down''" "[]"
        _ _ "[''GET http://fhir/Patient?identifier=down'']" "''http://me/pies''"
        "''connection refused''"]
    by (simp add: demo_simps)
  have 4: "postStudy demo_sys ''http://fhir'' (study_of ''err'') ''http://me/pies'' [] =
     (Inr \<lparr>Result_StudyID = ''err'', FHIRPatientID = '''', RiskAssessmentCount = 0,
            Error = Some (ErrorString
              ''Received HTTP 500 500 Internal Server Error from FHIR server when querying patient with Study ID: err.'')\<rparr>,
      [''GET http://fhir/Patient?identifier=err''])"
    using identity_resolution_errors [of demo_sys "''http://fhir''" "study_of ''err''" "[]"
        "''500 Internal Server Error''" _ "[''GET http://fhir/Patient?identifier=err'']"
        "''http://me/pies''" _ 500 "DecodeError ''unexpected end of JSON input''"]
    by (simp add: demo_simps)
  from 1 2 3 4 show ?thesis by blast
qed

section \<open>The loop over the studies\<close>

text \<open>
  When the loop returns, it returns one result for every study it visited, in the
  order of the visit and under the study's ID; a result with an error has the count 0.
\<close>

lemma postLoop_results:
  "postLoop sys fhirEndpoint studies basisPieURL acc w = (Inr results, w') \<Longrightarrow>
   length results = length acc + length studies \<and>
   take (length acc) results = acc \<and>
   map Result_StudyID (drop (length acc) results) = map ID studies"
proof (induction studies arbitrary: acc w)
  case Nil
  then show ?case by simp
next
  case (Cons study studies)
  obtain x w1 where x: "postStudy sys fhirEndpoint study basisPieURL w = (x, w1)"
    by (cases "postStudy sys fhirEndpoint study basisPieURL w")
  show ?case
  proof (cases x)
    case (Inl p)
    with x Cons.prems show ?thesis by simp
  next
    case (Inr result)
    with x Cons.prems
    have "postLoop sys fhirEndpoint studies basisPieURL (acc @ [result]) w1 = (Inr results, w')"
      by simp
    from Cons.IH [OF this]
    have len: "length results = length acc + 1 + length studies"
      and tk: "take (length acc + 1) results = acc @ [result]"
      and ids: "map Result_StudyID (drop (length acc + 1) results) = map ID studies"
      by simp_all
    have tk': "take (length acc) results = acc"
      using arg_cong [OF tk, of "take (length acc)"] by (simp add: min_def)
    have "drop (length acc) results = result # drop (length acc + 1) results"
    proof -
      have "results ! length acc = result"
        using arg_cong [OF tk, of "\<lambda>xs. xs ! length acc"] len by simp
      moreover have "length acc < length results" using len by simp
      ultimately show ?thesis using Cons_nth_drop_Suc [of "length acc" results] by simp
    qed
    with ids postStudy_StudyID [of sys fhirEndpoint study basisPieURL w result w1] x Inr
    have "map Result_StudyID (drop (length acc) results) = map ID (study # studies)" by simp
    with len tk' show ?thesis by simp
  qed
qed

lemma rangeStudies_length:
  "iteration_order studies order \<Longrightarrow> length (rangeStudies studies order) = card (dom studies)"
proof -
  assume io: "iteration_order studies order"
  then have "\<forall>k \<in> set order. studies k \<noteq> None" by (auto simp add: iteration_order_def)
  then have "length (List.map_filter studies order) = length order"
    by (induction order) (auto simp add: List.map_filter_simps)
  with io show ?thesis
    by (simp add: rangeStudies_def iteration_order_def distinct_card [symmetric])
qed

lemma PostRiskAssessments_results:
  assumes "iteration_order studies order"
    and "PostRiskAssessments sys fhirEndpoint studies order basisPieURL w = (Inr results, w')"
  shows "length results = card (dom studies) \<and>
         map Result_StudyID results = map ID (rangeStudies studies order)"
  using postLoop_results [of sys fhirEndpoint "rangeStudies studies order" basisPieURL "[]" w
      results w'] assms rangeStudies_length [of studies order]
  by (simp add: PostRiskAssessments_def)


text \<open>
  The loop returns whenever the server answers with patients only, and then the call
  has one result for every study of the map.
\<close>

lemma postStudy_returns:
  assumes "answers_patients_only sys"
  shows "\<exists>result w'. postStudy sys fhirEndpoint study basisPieURL w = (Inr result, w')"
proof -
  let ?u = "fhirEndpoint @ ''/Patient?identifier='' @ ID study"
  obtain r w1 where r: "Do sys ?u w = (r, w1)" by (cases "Do sys ?u w")
  from assms have ok: "case fst (Do sys ?u w) of
                 Response statusCode status (Decoded patients) \<Rightarrow>
                   list_all isPatient (Entry patients)
               | _ \<Rightarrow> True"
    unfolding answers_patients_only_def by blast
  show ?thesis
  proof (cases r)
    case (DoError err)
    with r show ?thesis by (simp add: postStudy_def Let_def split: option.split)
  next
    case (Response statusCode status resBody)
    show ?thesis
    proof (cases resBody)
      case (DecodeError err)
      with Response r show ?thesis by (simp add: postStudy_def Let_def split: option.split)
    next
      case (Decoded patients)
      with Response r ok have pats: "list_all isPatient (Entry patients)" by simp
      show ?thesis
      proof (cases "Entry patients")
        case Nil
        with Decoded Response r show ?thesis
          by (simp add: postStudy_def Let_def split: option.split)
      next
        case (Cons x xs)
        with pats obtain patientID where "x = PatientResource patientID"
          by (cases x) simp_all
        with Cons Decoded Response r show ?thesis
          by (simp add: postStudy_def Let_def split: option.split prod.split)
      qed
    qed
  qed
qed

lemma postLoop_returns:
  assumes "answers_patients_only sys"
  shows "\<exists>results w'. postLoop sys fhirEndpoint studies basisPieURL acc w = (Inr results, w')"
proof (induction studies arbitrary: acc w)
  case Nil
  show ?case by simp
next
  case (Cons study studies)
  from postStudy_returns [OF assms, of fhirEndpoint study basisPieURL w]
  obtain result w1 where "postStudy sys fhirEndpoint study basisPieURL w = (Inr result, w1)"
    by blast
  with Cons.IH [of "acc @ [result]" w1] show ?case by simp
qed

lemma postLoop_error_count:
  "postLoop sys fhirEndpoint studies basisPieURL acc w = (Inr results, w') \<Longrightarrow>
   \<forall>r \<in> set (drop (length acc) results). Error r \<noteq> None \<longrightarrow> RiskAssessmentCount r = 0"
proof (induction studies arbitrary: acc w)
  case Nil
  then show ?case by simp
next
  case (Cons study studies)
  obtain x w1 where x: "postStudy sys fhirEndpoint study basisPieURL w = (x, w1)"
    by (cases "postStudy sys fhirEndpoint study basisPieURL w")
  show ?case
  proof (cases x)
    case (Inl p)
    with x Cons.prems show ?thesis by simp
  next
    case (Inr result)
    with x Cons.prems
    have run: "postLoop sys fhirEndpoint studies basisPieURL (acc @ [result]) w1 = (Inr results, w')"
      by simp
    from Cons.IH [OF run]
    have rest: "\<forall>r \<in> set (drop (length acc + 1) results).
                  Error r \<noteq> None \<longrightarrow> RiskAssessmentCount r = 0" by simp
    from postLoop_results [OF run]
    have len: "length results = length acc + 1 + length studies"
      and tk: "take (length acc + 1) results = acc @ [result]" by simp_all
    have nth: "results ! length acc = result"
      using arg_cong [OF tk, of "\<lambda>xs. xs ! length acc"] len by simp
    have "drop (length acc) results = result # drop (length acc + 1) results"
      using Cons_nth_drop_Suc [of "length acc" results] nth len by simp
    with rest postStudy_error_count [of sys fhirEndpoint study basisPieURL w result w1] x Inr
    show ?thesis by simp
  qed
qed

lemma PostRiskAssessments_returns:
  assumes "answers_patients_only sys" and "iteration_order studies order"
  shows "\<exists>results w'.
           PostRiskAssessments sys fhirEndpoint studies order basisPieURL w = (Inr results, w') \<and>
           length results = card (dom studies) \<and>
           map Result_StudyID results = map ID (rangeStudies studies order) \<and>
           (\<forall>r \<in> set results. Error r \<noteq> None \<longrightarrow> RiskAssessmentCount r = 0)"
proof -
  from postLoop_returns [OF assms(1), of fhirEndpoint "rangeStudies studies order" basisPieURL "[]" w]
  obtain results w' where
    run: "postLoop sys fhirEndpoint (rangeStudies studies order) basisPieURL [] w = (Inr results, w')"
    by blast
  then have p: "PostRiskAssessments sys fhirEndpoint studies order basisPieURL w = (Inr results, w')"
    by (simp add: PostRiskAssessments_def)
  from PostRiskAssessments_results [OF assms(2) p] postLoop_error_count [OF run] p
  show ?thesis by simp
qed

text \<open>
  C1 does not hold of the code.  The type assertion
  \<open>patients.Entry[0].Resource.(*fhir.Patient)\<close> is unchecked: when the only entry of
  the answer for one study is not a patient, the function panics.  Here the study
  \<open>FOO\<close> has no patient (a failure that the claim lists) and the study \<open>odd\<close> gets
  an \<open>OperationOutcome\<close>: whichever of the two the iteration visits first, the call
  ends in the panic and returns no result, neither for \<open>odd\<close> nor for \<open>FOO\<close>; in the
  second order \<open>FOO\<close> is not even queried.
\<close>

theorem panic_ends_cycle:
  "PostRiskAssessments demo_sys ''http://fhir'' studies_FOO_odd [''FOO'', ''odd'']
     ''http://me/pies'' [] =
     (Inl (InterfaceConversion (OtherResource ''*models.OperationOutcome'')),
      [''GET http://fhir/Patient?identifier=FOO'', ''GET http://fhir/Patient?identifier=odd'']) \<and>
   PostRiskAssessments demo_sys ''http://fhir'' studies_FOO_odd [''odd'', ''FOO'']
     ''http://me/pies'' [] =
     (Inl (InterfaceConversion (OtherResource ''*models.OperationOutcome'')),
      [''GET http://fhir/Patient?identifier=odd''])"
  by (simp add: PostRiskAssessments_def rangeStudies_def List.map_filter_simps
      studies_FOO_odd_def postStudy_def demo_simps)

text \<open>
  C2 does not hold of the code, by the same unchecked type assertion: for a map of
  one study whose identity query is answered with a single entry that is not a
  patient, the call panics and returns no result at all.
\<close>

theorem panic_returns_no_result:
  "card (dom studies_odd) = 1 \<and>
   PostRiskAssessments demo_sys ''http://fhir'' studies_odd [''odd''] ''http://me/pies'' [] =
     (Inl (InterfaceConversion (OtherResource ''*models.OperationOutcome'')),
      [''GET http://fhir/Patient?identifier=odd''])"
  by (simp add: PostRiskAssessments_def rangeStudies_def List.map_filter_simps
      studies_odd_def postStudy_def demo_simps)

section \<open>The identity query and pagination\<close>

text \<open>
  C7, as stated, fails: the identity query for the study \<open>paged\<close> is answered with
  a first page of one patient and a link \<open>next\<close> to a second page with another
  patient, so two subjects match over all pages.  The code resolves the study to the
  patient of the first page and posts its assessments; the log of the world shows the
  single GET.
\<close>

theorem identity_query_pages_counterexample:
  "spec_entries_of_all_pages demo_sys (Suc (Suc 0)) ''http://fhir/Patient?identifier=paged'' [] =
     Some [PatientResource ''p1'', PatientResource ''p2''] \<and>
   postStudy demo_sys ''http://fhir'' (study_of ''paged'') ''http://me/pies'' [] =
     (Inr \<lparr>Result_StudyID = ''paged'', FHIRPatientID = ''p1'', RiskAssessmentCount = 1,
            Error = None\<rparr>,
      [''GET http://fhir/Patient?identifier=paged'', ''NewObjectId'', ''Now'', ''Update p1''])"
  by (simp add: postStudy_def demo_simps conv_simps nextLink_def)

text \<open>
  C7, amended.  The identity query is one GET whose answer alone decides the study,
  and the links of the bundle are not read: when the HTTP client is replaced by any
  other one that, for the query URL of the study in the present state, gives the same
  answer without its links, the iteration returns the same result and the same world.
\<close>

theorem identity_query_single_page:
  assumes "d (fhirEndpoint @ ''/Patient?identifier='' @ ID study) w =
             (dropLinks (fst (Do sys (fhirEndpoint @ ''/Patient?identifier='' @ ID study) w)),
              snd (Do sys (fhirEndpoint @ ''/Patient?identifier='' @ ID study) w))"
  shows "postStudy (sys\<lparr>Do := d\<rparr>) fhirEndpoint study basisPieURL w =
         postStudy sys fhirEndpoint study basisPieURL w"
proof -
  let ?u = "fhirEndpoint @ ''/Patient?identifier='' @ ID study"
  have conv: "\<And>url w'. ToRiskServiceCalculationResults (sys\<lparr>Do := d\<rparr>) study url w' =
                ToRiskServiceCalculationResults sys study url w'"
    by (rule ToRiskServiceCalculationResults_env) simp_all
  obtain r w1 where r: "Do sys ?u w = (r, w1)" by (cases "Do sys ?u w")
  with assms have d: "d ?u w = (dropLinks r, w1)" by simp
  show ?thesis
  proof (cases r)
    case (DoError err)
    with r d show ?thesis by (simp add: postStudy_def Let_def split: option.split)
  next
    case (Response statusCode status resBody)
    show ?thesis
    proof (cases resBody)
      case (DecodeError err)
      with Response r d show ?thesis by (simp add: postStudy_def Let_def split: option.split)
    next
      case (Decoded patients)
      with Response r d show ?thesis
        by (simp add: postStudy_def Let_def conv split: option.split resource.split)
    qed
  qed
qed

theorem identity_query_single_page_witness:
  "postStudy (demo_sys\<lparr>Do := demo_Do_without_links\<rparr>) ''http://fhir'' (study_of ''paged'')
     ''http://me/pies'' [] =
     (Inr \<lparr>Result_StudyID = ''paged'', FHIRPatientID = ''p1'', RiskAssessmentCount = 1,
            Error = None\<rparr>,
      [''GET http://fhir/Patient?identifier=paged'', ''NewObjectId'', ''Now'', ''Update p1''])"
proof -
  have "demo_Do_without_links (''http://fhir'' @ ''/Patient?identifier='' @ ID (study_of ''paged'')) [] =
     (dropLinks (fst (Do demo_sys (''http://fhir'' @ ''/Patient?identifier='' @ ID (study_of ''paged'')) [])),
      snd (Do demo_sys (''http://fhir'' @ ''/Patient?identifier='' @ ID (study_of ''paged'')) []))"
    by (simp add: demo_Do_without_links_def demo_sys_def)
  from identity_query_single_page [of demo_Do_without_links "''http://fhir''"
      "study_of ''paged''" "[]" demo_sys "''http://me/pies''", OF this]
  show ?thesis by (simp add: postStudy_def demo_simps conv_simps)
qed

section \<open>Retrieving a pie\<close>

text \<open>
  C9, as stated, fails: for the malformed identifier \<open>xyz\<close> the handler answers
  400 (bad request) with a message, not 404 (not found).
\<close>

theorem pieHandler_counterexample:
  "\<not> IsObjectIdHex ''xyz'' \<and>
   pieHandler pies_one ''xyz'' =
     String StatusBadRequest ''Bad ID format for requested Pie. Should be a BSON Id'' \<and>
   pieHandler pies_one ''xyz'' \<noteq> Status StatusNotFound"
  by (simp add: pieHandler_def IsObjectIdHex_def)

text \<open>
  C9, amended.  A malformed identifier gets status 400 with the text
  \<open>Bad ID format for requested Pie. Should be a BSON Id\<close>; a well-formed identifier for
  which the collection returns an error (no such pie) gets status 404; a well-formed
  identifier of a stored pie gets status 200 with that pie.
\<close>

theorem pieHandler_responses:
  "(\<not> IsObjectIdHex ident \<longrightarrow>
      pieHandler pieCollection ident =
        String StatusBadRequest ''Bad ID format for requested Pie. Should be a BSON Id'') \<and>
   (IsObjectIdHex ident \<and> pieCollection (ObjectIdHex ident) = Inl err \<longrightarrow>
      pieHandler pieCollection ident = Status StatusNotFound) \<and>
   (IsObjectIdHex ident \<and> pieCollection (ObjectIdHex ident) = Inr pie \<longrightarrow>
      pieHandler pieCollection ident = JSON StatusOK pie)"
  by (simp add: pieHandler_def)

theorem pieHandler_responses_witness:
  "pieHandler pies_one ''xyz'' =
     String StatusBadRequest ''Bad ID format for requested Pie. Should be a BSON Id'' \<and>
   pieHandler pies_one ''56fd63cdac1c5d77f6f695a2'' = Status StatusNotFound \<and>
   pieHandler pies_one ''56fd63cdac1c5d77f6f695a1'' = JSON StatusOK pie1"
proof -
  have a: "\<not> IsObjectIdHex ''xyz''" by (simp add: IsObjectIdHex_def)
  have b: "IsObjectIdHex ''56fd63cdac1c5d77f6f695a2'' \<and>
           pies_one (ObjectIdHex ''56fd63cdac1c5d77f6f695a2'') = Inl (ErrorString ''not found'')"
    by (simp add: IsObjectIdHex_def isHexDigit_def isDigit_def pies_one_def hexVal_def)
  have c: "IsObjectIdHex ''56fd63cdac1c5d77f6f695a1'' \<and>
           pies_one (ObjectIdHex ''56fd63cdac1c5d77f6f695a1'') = Inr pie1"
    by (simp add: IsObjectIdHex_def isHexDigit_def isDigit_def pies_one_def)
  from a b c pieHandler_responses [of "''xyz''" pies_one]
    pieHandler_responses [of "''56fd63cdac1c5d77f6f695a2''" pies_one "ErrorString ''not found''"]
    pieHandler_responses [of "''56fd63cdac1c5d77f6f695a1''" pies_one _ pie1]
  show ?thesis by blast
qed


end
